theory Spec2Isabelle
  imports Complex_Main "HOL-Library.Word"
begin

section \<open>Python values and exceptions\<close>

text \<open>
  A Python \<open>str\<close> is a sequence of Unicode code points, a \<open>bytes\<close> object a sequence of
  octets. File-system paths are plain strings.
\<close>

type_synonym byte = "8 word"
type_synonym bytes = "byte list"
type_synonym pystr = "nat list"

definition str :: "string \<Rightarrow> pystr" where
  "str s = map of_char s"

text \<open>
  The exceptions the program distinguishes. Every one of them is an instance of
  \<open>Exception\<close>: the operations of \<open>open\<close>, \<open>zipfile\<close> and \<open>pyzipper\<close> report their
  failures with subclasses of \<open>Exception\<close>. \<open>RuntimeError\<close> stands for the class and its
  subclasses, \<open>OtherException\<close> for every class the program does not name.
\<close>

datatype py_exn =
    FileNotFoundError
  | BadZipFile
  | RuntimeError
  | UnicodeError
  | OtherException string

datatype exn_class = CFileNotFoundError | CBadZipFile | CRuntimeError | CException

fun isinstance :: "py_exn \<Rightarrow> exn_class \<Rightarrow> bool" where
  "isinstance e CException = True"
| "isinstance e CFileNotFoundError = (e = FileNotFoundError)"
| "isinstance e CBadZipFile = (e = BadZipFile)"
| "isinstance e CRuntimeError = (e = RuntimeError)"

section \<open>The text layer of \<open>open(path, 'r', encoding='utf-8', errors=...)\<close>\<close>

text \<open>
  The UTF-8 decoder of the Python runtime. One step looks at the head of the input and
  gives the code point decoded there, or \<open>None\<close> for a malformed sequence, and the
  number of bytes the step covers. A malformed sequence covers the lead byte and the
  continuation bytes accepted before the offending one; an input that ends inside a
  sequence is malformed up to its end.
\<close>

definition is_cont :: "byte \<Rightarrow> bool" where
  "is_cont b \<longleftrightarrow> 0x80 \<le> b \<and> b \<le> 0xBF"

definition cont_bits :: "byte \<Rightarrow> nat" where
  "cont_bits b = unat b mod 64"

fun utf8_step2 :: "byte \<Rightarrow> bytes \<Rightarrow> nat option \<times> nat" where
  "utf8_step2 b0 [] = (None, 1)"
| "utf8_step2 b0 (b1 # _) =
     (if \<not> is_cont b1 then (None, 1)
      else (Some (unat b0 mod 32 * 64 + cont_bits b1), 2))"

definition bad_second3 :: "byte \<Rightarrow> byte \<Rightarrow> bool" where
  "bad_second3 b0 b1 \<longleftrightarrow>
     \<not> is_cont b1 \<or> (if b1 < 0xA0 then b0 = 0xE0 else b0 = 0xED)"

fun utf8_step3 :: "byte \<Rightarrow> bytes \<Rightarrow> nat option \<times> nat" where
  "utf8_step3 b0 [] = (None, 1)"
| "utf8_step3 b0 [b1] = (if bad_second3 b0 b1 then (None, 1) else (None, 2))"
| "utf8_step3 b0 (b1 # b2 # _) =
     (if bad_second3 b0 b1 then (None, 1)
      else if \<not> is_cont b2 then (None, 2)
      else (Some (unat b0 mod 16 * 4096 + cont_bits b1 * 64 + cont_bits b2), 3))"

definition bad_second4 :: "byte \<Rightarrow> byte \<Rightarrow> bool" where
  "bad_second4 b0 b1 \<longleftrightarrow>
     \<not> is_cont b1 \<or> (if b1 < 0x90 then b0 = 0xF0 else b0 = 0xF4)"

fun utf8_step4 :: "byte \<Rightarrow> bytes \<Rightarrow> nat option \<times> nat" where
  "utf8_step4 b0 [] = (None, 1)"
| "utf8_step4 b0 [b1] = (if bad_second4 b0 b1 then (None, 1) else (None, 2))"
| "utf8_step4 b0 [b1, b2] =
     (if bad_second4 b0 b1 then (None, 1)
      else if \<not> is_cont b2 then (None, 2) else (None, 3))"
| "utf8_step4 b0 (b1 # b2 # b3 # _) =
     (if bad_second4 b0 b1 then (None, 1)
      else if \<not> is_cont b2 then (None, 2)
      else if \<not> is_cont b3 then (None, 3)
      else (Some (unat b0 mod 8 * 262144 + cont_bits b1 * 4096
                   + cont_bits b2 * 64 + cont_bits b3), 4))"

definition utf8_step :: "byte \<Rightarrow> bytes \<Rightarrow> nat option \<times> nat" where
  "utf8_step b0 bs =
     (if b0 < 0x80 then (Some (unat b0), 1)
      else if b0 < 0xC2 then (None, 1)
      else if b0 < 0xE0 then utf8_step2 b0 bs
      else if b0 < 0xF0 then utf8_step3 b0 bs
      else if b0 < 0xF5 then utf8_step4 b0 bs
      else (None, 1))"

function utf8_scan :: "bytes \<Rightarrow> nat option list" where
  "utf8_scan [] = []"
| "utf8_scan (b0 # bs) =
     (case utf8_step b0 bs of (r, n) \<Rightarrow> r # utf8_scan (drop (n - 1) bs))"
  by pat_completeness auto
termination
  by (relation "measure length") auto

text \<open>
  The error handler decides what a malformed sequence becomes: \<open>'strict'\<close> raises,
  \<open>'ignore'\<close> drops the sequence and decoding goes on behind it.
\<close>

datatype errors = Strict | Ignore

fun utf8_decode :: "errors \<Rightarrow> bytes \<Rightarrow> py_exn + pystr" where
  "utf8_decode Strict bs =
     (if None \<in> set (utf8_scan bs) then Inl UnicodeError
      else Inr [c. Some c \<leftarrow> utf8_scan bs])"
| "utf8_decode Ignore bs = Inr [c. Some c \<leftarrow> utf8_scan bs]"

text \<open>
  Universal newlines (the default \<open>newline=None\<close> of \<open>open\<close>): \<open>\r\n\<close> and a lone \<open>\r\<close>
  are read as \<open>\n\<close>. Iterating over the file gives its lines, each with its \<open>\n\<close>; the
  last line has none when the file does not end with a line ending.
\<close>

fun universal_newlines :: "pystr \<Rightarrow> pystr" where
  "universal_newlines [] = []"
| "universal_newlines [c] = [if c = 13 then 10 else c]"
| "universal_newlines (c # d # cs) =
     (if c = 13 \<and> d = 10 then 10 # universal_newlines cs
      else if c = 13 then 10 # universal_newlines (d # cs)
      else c # universal_newlines (d # cs))"

fun split_lines :: "pystr \<Rightarrow> pystr list" where
  "split_lines [] = []"
| "split_lines (c # cs) =
     (if c = 10 then [10] # split_lines cs
      else (case split_lines cs of
              [] \<Rightarrow> [[c]]
            | l # ls \<Rightarrow> (c # l) # ls))"

text \<open>
  A file on disk: its bytes, and possibly a read fault \<open>(n, e)\<close>: the device fails with
  \<open>e\<close> once \<open>n\<close> lines have been delivered (at the end of the file when it has fewer).
  Under \<open>'strict'\<close> a malformed sequence raises before any line is delivered in this
  model; the program never opens a file in that mode.
\<close>

datatype raw_file = RawFile (content: bytes) (fault: "(nat \<times> py_exn) option")

definition text_lines :: "errors \<Rightarrow> raw_file \<Rightarrow> pystr list \<times> py_exn option" where
  "text_lines er f =
     (case utf8_decode er (content f) of
        Inl e \<Rightarrow> ([], Some e)
      | Inr s \<Rightarrow>
          (case fault f of
             None \<Rightarrow> (split_lines (universal_newlines s), None)
           | Some (n, e) \<Rightarrow> (take n (split_lines (universal_newlines s)), Some e)))"

text \<open>\<open>str.rstrip(chars)\<close>: the string without its longest suffix made of \<open>chars\<close>.\<close>

definition rstrip :: "pystr \<Rightarrow> pystr \<Rightarrow> pystr" where
  "rstrip chars s = rev (dropWhile (\<lambda>c. c \<in> set chars) (rev s))"

text \<open>
  \<open>str.encode\<close>. UTF-8 has no encoding for the surrogates \<open>U+D800..U+DFFF\<close> (and a
  \<open>str\<close> holds no code point above \<open>U+10FFFF\<close>); Latin-1 has one for the code points
  below 256 only. Otherwise \<open>UnicodeEncodeError\<close> is raised.
\<close>

datatype encoding = UTF8 | Latin1

definition utf8_char :: "nat \<Rightarrow> bytes option" where
  "utf8_char c =
     (if c < 0x80 then Some [of_nat c]
      else if c < 0x800 then Some [of_nat (0xC0 + c div 64), of_nat (0x80 + c mod 64)]
      else if 0xD800 \<le> c \<and> c \<le> 0xDFFF then None
      else if c < 0x10000 then
        Some [of_nat (0xE0 + c div 4096), of_nat (0x80 + c div 64 mod 64),
              of_nat (0x80 + c mod 64)]
      else if c < 0x110000 then
        Some [of_nat (0xF0 + c div 262144), of_nat (0x80 + c div 4096 mod 64),
              of_nat (0x80 + c div 64 mod 64), of_nat (0x80 + c mod 64)]
      else None)"

definition latin1_char :: "nat \<Rightarrow> bytes option" where
  "latin1_char c = (if c < 256 then Some [of_nat c] else None)"

fun encode_with :: "(nat \<Rightarrow> bytes option) \<Rightarrow> pystr \<Rightarrow> py_exn + bytes" where
  "encode_with f [] = Inr []"
| "encode_with f (c # cs) =
     (case f c of
        None \<Rightarrow> Inl UnicodeError
      | Some bs \<Rightarrow>
          (case encode_with f cs of Inl e \<Rightarrow> Inl e | Inr rest \<Rightarrow> Inr (bs @ rest)))"

fun encode :: "encoding \<Rightarrow> pystr \<Rightarrow> py_exn + bytes" where
  "encode UTF8 s = encode_with utf8_char s"
| "encode Latin1 s = encode_with latin1_char s"

section \<open>The world the program runs in\<close>

text \<open>
  An opened archive (a \<open>ZipFile\<close>, or the \<open>AESZipFile\<close> of pyzipper) answers two calls:
  \<open>namelist()\<close>, and \<open>open(member, pwd=...)\<close>, which checks the password and returns a
  file object whose \<open>read(1)\<close> decrypts the first byte. Each call returns or raises.
\<close>

datatype member_file = MemberFile (read1: "py_exn + bytes")

record archive =
  namelist :: "py_exn + pystr list"
  open_member :: "pystr \<Rightarrow> bytes \<Rightarrow> py_exn + member_file"

text \<open>
  The environment: what \<open>ZipFile(path)\<close> gives, whether \<open>import pyzipper\<close> succeeds (and
  then what \<open>pyzipper.AESZipFile(path, 'r')\<close> gives), the files on disk, and the readings
  of \<open>time.time()\<close>: \<open>clock env 0\<close> at the start of the run, \<open>clock env n\<close> when the
  progress after \<open>n\<close> candidates is reported.
\<close>

record env =
  ZipFile :: "string \<Rightarrow> py_exn + archive"
  pyzipper :: "(string \<Rightarrow> py_exn + archive) option"
  files :: "string \<Rightarrow> py_exn + raw_file"
  clock :: "nat \<Rightarrow> real"

definition open_text :: "env \<Rightarrow> string \<Rightarrow> errors \<Rightarrow> py_exn + pystr list \<times> py_exn option" where
  "open_text env path er =
     (case files env path of Inl e \<Rightarrow> Inl e | Inr f \<Rightarrow> Inr (text_lines er f))"

text \<open>
  What a run does is recorded as a trace of events, in the order they happen. The lines
  written to the error stream are kept by kind:
  \<^item> \<open>ErrZipNotFound\<close>: "Erro: arquivo '...' nao encontrado.";
  \<^item> \<open>ErrBadZip\<close>: "Erro: '...' nao e um ZIP valido ou esta corrompido.";
  \<^item> \<open>ErrOpenZip\<close>: "Erro abrindo zip: ...";
  \<^item> \<open>ErrListZip\<close>: "Erro ao listar conteudo do zip: ...";
  \<^item> \<open>ErrNoMembers\<close>: "Erro: ZIP nao contem arquivos testaveis.";
  \<^item> \<open>ErrWordlistNotFound\<close>: "Erro: wordlist '...' nao encontrada.";
  \<^item> \<open>ErrWordlistRead\<close>: "Erro lendo wordlist: ...";
  \<^item> the \<open>Dbg\<close> messages are the "[debug]" lines of \<open>--verbose\<close>.
  \<open>CloseZip\<close> is the \<open>close()\<close> of the handle that \<open>ZipFile(zip_path)\<close> returned.
  Writing to the two streams is taken to succeed.
\<close>

datatype message =
    ErrZipNotFound string
  | ErrBadZip string
  | ErrOpenZip py_exn
  | ErrListZip py_exn
  | ErrNoMembers
  | ErrWordlistNotFound string
  | ErrWordlistRead py_exn
  | DbgMember pystr
  | DbgPyzipperFound
  | DbgPyzipperMissing
  | DbgProgress nat real

datatype capability = Primary | Secondary

datatype event =
    OpenZip string
  | ListZip
  | CloseZip
  | ImportPyzipper
  | OpenWordlist string
  | ReadLine pystr
  | CloseWordlist
  | Probe capability pystr bytes
  | Stdout pystr
  | Stderr message

section \<open>\<open>iter_wordlist\<close>\<close>

text \<open>
  A generator is the sequence of what it does when it is resumed again and again: an
  effect, a value yielded to the consumer, its end, or an exception. The consumer decides
  how far the sequence is run.
\<close>

datatype 'a gen =
    Stop
  | Raise py_exn
  | Yield 'a "'a gen"
  | Effect event "'a gen"

fun gen_yields :: "'a gen \<Rightarrow> 'a list" where
  "gen_yields Stop = []"
| "gen_yields (Raise e) = []"
| "gen_yields (Yield x g) = x # gen_yields g"
| "gen_yields (Effect ev g) = gen_yields g"

fun gen_end :: "'a gen \<Rightarrow> py_exn option" where
  "gen_end Stop = None"
| "gen_end (Raise e) = Some e"
| "gen_end (Yield x g) = gen_end g"
| "gen_end (Effect ev g) = gen_end g"

text \<open>Both handlers of \<open>iter_wordlist\<close> raise again what they caught.\<close>

definition reraise :: "py_exn \<Rightarrow> py_exn" where
  "reraise e =
     (if isinstance e CFileNotFoundError then e
      else if isinstance e CException then e
      else e)"

fun wordlist_loop :: "pystr list \<Rightarrow> py_exn option \<Rightarrow> pystr gen" where
  "wordlist_loop [] None = Effect CloseWordlist Stop"
| "wordlist_loop [] (Some e) = Effect CloseWordlist (Raise (reraise e))"
| "wordlist_loop (line # rest) flt =
     Effect (ReadLine line)
       (let s = rstrip [10, 13] line in
        if s \<noteq> [] then Yield s (wordlist_loop rest flt)
        else wordlist_loop rest flt)"

definition iter_wordlist :: "env \<Rightarrow> string \<Rightarrow> pystr gen" where
  "iter_wordlist env path =
     Effect (OpenWordlist path)
       (case open_text env path Ignore of
          Inl e \<Rightarrow> Raise (reraise e)
        | Inr (lines, flt) \<Rightarrow> wordlist_loop lines flt)"

section \<open>The two probes\<close>

text \<open>The \<open>with\<close> block of a probe: open the member with the password, read one byte.\<close>

definition probe_member :: "archive \<Rightarrow> pystr \<Rightarrow> bytes \<Rightarrow> py_exn + unit" where
  "probe_member z member pwd_bytes =
     (case open_member z member pwd_bytes of
        Inl e \<Rightarrow> Inl e
      | Inr fh \<Rightarrow> (case read1 fh of Inl e \<Rightarrow> Inl e | Inr _ \<Rightarrow> Inr ()))"

definition try_zipfile_open :: "archive \<Rightarrow> pystr \<Rightarrow> bytes \<Rightarrow> py_exn + bool" where
  "try_zipfile_open z member pwd_bytes =
     (case probe_member z member pwd_bytes of
        Inr _ \<Rightarrow> Inr True
      | Inl e \<Rightarrow>
          if isinstance e CRuntimeError then Inr False
          else if isinstance e CException then Inr False
          else Inl e)"

definition try_pyzipper ::
  "string \<Rightarrow> pystr \<Rightarrow> bytes \<Rightarrow> (string \<Rightarrow> py_exn + archive) \<Rightarrow> py_exn + bool" where
  "try_pyzipper zip_path member pwd_bytes AESZipFile =
     (case (case AESZipFile zip_path of
              Inl e \<Rightarrow> Inl e
            | Inr z2 \<Rightarrow> probe_member z2 member pwd_bytes) of
        Inr _ \<Rightarrow> Inr True
      | Inl e \<Rightarrow>
          if isinstance e CRuntimeError then Inr False
          else if isinstance e CException then Inr False
          else Inl e)"

section \<open>\<open>find_password\<close>\<close>

text \<open>The local variables of \<open>find_password\<close> that the candidate loop reads.\<close>

record locals =
  z :: archive
  zip_path :: string
  target_member :: pystr
  pyzipper_module :: "(string \<Rightarrow> py_exn + archive) option"
  verbose :: bool
  start :: real

text \<open>How a block of statements is left: it falls through, returns, or raises.\<close>

datatype flow = Continue | Return int | Raised py_exn

definition pre :: "event list \<Rightarrow> 'a \<times> event list \<Rightarrow> 'a \<times> event list" where
  "pre evs r = (fst r, evs @ snd r)"

text \<open>The inner loop \<open>for enc in ('utf-8', 'latin-1')\<close> for one candidate.\<close>

fun try_encodings :: "locals \<Rightarrow> pystr \<Rightarrow> encoding list \<Rightarrow> flow \<times> event list" where
  "try_encodings L candidate [] = (Continue, [])"
| "try_encodings L candidate (enc # encs) =
     (case encode enc candidate of
        Inl e \<Rightarrow>
          if isinstance e CException then try_encodings L candidate encs
          else (Raised e, [])
      | Inr pwd_bytes \<Rightarrow>
          (case try_zipfile_open (z L) (target_member L) pwd_bytes of
             Inl e \<Rightarrow> (Raised e, [Probe Primary (target_member L) pwd_bytes])
           | Inr True \<Rightarrow>
               (Return 0, [Probe Primary (target_member L) pwd_bytes, Stdout candidate])
           | Inr False \<Rightarrow>
               pre [Probe Primary (target_member L) pwd_bytes]
                 (case pyzipper_module L of
                    None \<Rightarrow> try_encodings L candidate encs
                  | Some AESZipFile \<Rightarrow>
                      (case try_pyzipper (zip_path L) (target_member L) pwd_bytes
                              AESZipFile of
                         Inl e \<Rightarrow>
                           (Raised e, [Probe Secondary (target_member L) pwd_bytes])
                       | Inr True \<Rightarrow>
                           (Return 0, [Probe Secondary (target_member L) pwd_bytes,
                                       Stdout candidate])
                       | Inr False \<Rightarrow>
                           pre [Probe Secondary (target_member L) pwd_bytes]
                             (try_encodings L candidate encs)))))"

definition progress :: "env \<Rightarrow> locals \<Rightarrow> nat \<Rightarrow> event list" where
  "progress env L total_tried =
     (if verbose L \<and> total_tried mod 100 = 0
      then [Stderr (DbgProgress total_tried (clock env total_tried - start L))]
      else [])"

text \<open>The loop \<open>for candidate in iter_wordlist(wordlist_path)\<close>, resuming the generator.\<close>

fun for_candidates :: "env \<Rightarrow> locals \<Rightarrow> nat \<Rightarrow> pystr gen \<Rightarrow> flow \<times> event list" where
  "for_candidates env L total_tried Stop = (Continue, [])"
| "for_candidates env L total_tried (Raise e) = (Raised e, [])"
| "for_candidates env L total_tried (Effect ev g) =
     pre [ev] (for_candidates env L total_tried g)"
| "for_candidates env L total_tried (Yield candidate g) =
     (if candidate = [] then for_candidates env L (total_tried + 1) g
      else
        (case try_encodings L candidate [UTF8, Latin1] of
           (Continue, evs) \<Rightarrow>
             pre (evs @ progress env L (total_tried + 1))
               (for_candidates env L (total_tried + 1) g)
         | (Return rc, evs) \<Rightarrow> (Return rc, evs)
         | (Raised e, evs) \<Rightarrow> (Raised e, evs)))"

text \<open>The \<open>try\<close> statement around the loop, with its \<open>return 1\<close> and its two handlers.\<close>

definition scan_wordlist :: "env \<Rightarrow> locals \<Rightarrow> string \<Rightarrow> int \<times> event list" where
  "scan_wordlist env L wordlist_path =
     (case for_candidates env L 0 (iter_wordlist env wordlist_path) of
        (Continue, evs) \<Rightarrow> (1, evs)
      | (Return rc, evs) \<Rightarrow> (rc, evs)
      | (Raised e, evs) \<Rightarrow>
          if isinstance e CFileNotFoundError
          then (2, evs @ [Stderr (ErrWordlistNotFound wordlist_path)])
          else (2, evs @ [Stderr (ErrWordlistRead e)]))"

definition endswith :: "pystr \<Rightarrow> nat \<Rightarrow> bool" where
  "endswith s c \<longleftrightarrow> s \<noteq> [] \<and> last s = c"

definition import_pyzipper ::
  "env \<Rightarrow> bool \<Rightarrow> (string \<Rightarrow> py_exn + archive) option \<times> event list" where
  "import_pyzipper env vb =
     (case pyzipper env of
        Some pz \<Rightarrow> (Some pz, ImportPyzipper # (if vb then [Stderr DbgPyzipperFound] else []))
      | None \<Rightarrow> (None, ImportPyzipper # (if vb then [Stderr DbgPyzipperMissing] else [])))"

definition find_password :: "env \<Rightarrow> string \<Rightarrow> string \<Rightarrow> bool \<Rightarrow> int \<times> event list" where
  "find_password env zp wordlist_path vb =
     pre [OpenZip zp]
       (case ZipFile env zp of
          Inl e \<Rightarrow>
            if isinstance e CFileNotFoundError then (2, [Stderr (ErrZipNotFound zp)])
            else if isinstance e CBadZipFile then (2, [Stderr (ErrBadZip zp)])
            else (2, [Stderr (ErrOpenZip e)])
        | Inr zf \<Rightarrow>
            pre [ListZip]
              (case namelist zf of
                 Inl e \<Rightarrow> (2, [Stderr (ErrListZip e)])
               | Inr names \<Rightarrow>
                   (case filter (\<lambda>m. \<not> endswith m 47) names of
                      [] \<Rightarrow> (2, [Stderr ErrNoMembers])
                    | first_member # _ \<Rightarrow>
                        pre (if vb then [Stderr (DbgMember first_member)] else [])
                          (case import_pyzipper env vb of
                             (pz, evs) \<Rightarrow>
                               pre evs
                                 (scan_wordlist env
                                    \<lparr>z = zf, zip_path = zp, target_member = first_member,
                                     pyzipper_module = pz, verbose = vb,
                                     start = clock env 0\<rparr>
                                    wordlist_path)))))"

text \<open>What a trace shows on standard output, and what was read and probed.\<close>

fun stdout_of :: "event list \<Rightarrow> pystr list" where
  "stdout_of [] = []"
| "stdout_of (Stdout s # t) = s # stdout_of t"
| "stdout_of (_ # t) = stdout_of t"

fun stderr_of :: "event list \<Rightarrow> message list" where
  "stderr_of [] = []"
| "stderr_of (Stderr m # t) = m # stderr_of t"
| "stderr_of (_ # t) = stderr_of t"

fun lines_read :: "event list \<Rightarrow> pystr list" where
  "lines_read [] = []"
| "lines_read (ReadLine l # t) = l # lines_read t"
| "lines_read (_ # t) = lines_read t"

fun probes_of :: "event list \<Rightarrow> (capability \<times> pystr \<times> bytes) list" where
  "probes_of [] = []"
| "probes_of (Probe c m p # t) = (c, m, p) # probes_of t"
| "probes_of (_ # t) = probes_of t"

section \<open>The vocabulary of the specification\<close>

text \<open>
  A probe succeeds when the password check of \<open>open\<close> and the one-byte read both
  succeed; the secondary probe needs pyzipper and its own opening of the archive.
\<close>

definition primary_ok :: "locals \<Rightarrow> bytes \<Rightarrow> bool" where
  "primary_ok L pwd \<longleftrightarrow> probe_member (z L) (target_member L) pwd = Inr ()"

definition secondary_ok :: "locals \<Rightarrow> bytes \<Rightarrow> bool" where
  "secondary_ok L pwd \<longleftrightarrow>
     (case pyzipper_module L of
        None \<Rightarrow> False
      | Some AESZipFile \<Rightarrow>
          (case AESZipFile (zip_path L) of
             Inl e \<Rightarrow> False
           | Inr z2 \<Rightarrow> probe_member z2 (target_member L) pwd = Inr ()))"

text \<open>
  The verification attempts a candidate can get, in the fixed order: for UTF-8, then for
  Latin-1, the primary probe, then the secondary probe when pyzipper is there; an
  encoding that cannot represent the candidate contributes nothing.
\<close>

definition attempts_enc :: "locals \<Rightarrow> pystr \<Rightarrow> encoding \<Rightarrow> (capability \<times> bytes) list" where
  "attempts_enc L c enc =
     (case encode enc c of
        Inl e \<Rightarrow> []
      | Inr pwd \<Rightarrow>
          (Primary, pwd) #
          (case pyzipper_module L of None \<Rightarrow> [] | Some aes \<Rightarrow> [(Secondary, pwd)]))"

definition attempts :: "locals \<Rightarrow> pystr \<Rightarrow> encoding list \<Rightarrow> (capability \<times> bytes) list" where
  "attempts L c encs = concat (map (attempts_enc L c) encs)"

fun attempt_ok :: "locals \<Rightarrow> capability \<times> bytes \<Rightarrow> bool" where
  "attempt_ok L (Primary, pwd) = primary_ok L pwd"
| "attempt_ok L (Secondary, pwd) = secondary_ok L pwd"

definition verifies :: "locals \<Rightarrow> pystr \<Rightarrow> bool" where
  "verifies L c \<longleftrightarrow> list_ex (attempt_ok L) (attempts L c [UTF8, Latin1])"

text \<open>The prefix of a list up to and including its first element with \<open>P\<close>.\<close>

fun take_until :: "('a \<Rightarrow> bool) \<Rightarrow> 'a list \<Rightarrow> 'a list" where
  "take_until P [] = []"
| "take_until P (x # xs) = (if P x then [x] else x # take_until P xs)"

definition probe_event :: "locals \<Rightarrow> capability \<times> bytes \<Rightarrow> event" where
  "probe_event L a = Probe (fst a) (target_member L) (snd a)"

text \<open>The candidates of a list of lines: each line stripped, the empty ones left out.\<close>

definition candidates :: "pystr list \<Rightarrow> pystr list" where
  "candidates ls = filter (\<lambda>s. s \<noteq> []) (map (rstrip [10, 13]) ls)"

text \<open>The lines of the error stream that report an error (the others are "[debug]").\<close>

fun is_error :: "message \<Rightarrow> bool" where
  "is_error (DbgMember m) = False"
| "is_error DbgPyzipperFound = False"
| "is_error DbgPyzipperMissing = False"
| "is_error (DbgProgress n t) = False"
| "is_error m = True"

definition errors_of :: "event list \<Rightarrow> message list" where
  "errors_of t = filter is_error (stderr_of t)"

text \<open>
  The archive errors: what opening the archive and selecting the target member report
  when they fail, \<open>None\<close> when they succeed.
\<close>

definition archive_error :: "env \<Rightarrow> string \<Rightarrow> message option" where
  "archive_error env zp =
     (case ZipFile env zp of
        Inl e \<Rightarrow>
          Some (if e = FileNotFoundError then ErrZipNotFound zp
                else if e = BadZipFile then ErrBadZip zp
                else ErrOpenZip e)
      | Inr zf \<Rightarrow>
          (case namelist zf of
             Inl e \<Rightarrow> Some (ErrListZip e)
           | Inr names \<Rightarrow>
               (case List.find (\<lambda>m. \<not> endswith m 47) names of
                  None \<Rightarrow> Some ErrNoMembers
                | Some m \<Rightarrow> None)))"

text \<open>The local variables of a run whose archive opened as \<open>zf\<close> with target member \<open>m\<close>.\<close>

definition locals_of :: "env \<Rightarrow> archive \<Rightarrow> string \<Rightarrow> pystr \<Rightarrow> bool \<Rightarrow> locals" where
  "locals_of env zf zp m vb =
     \<lparr>z = zf, zip_path = zp, target_member = m, pyzipper_module = pyzipper env,
      verbose = vb, start = clock env 0\<rparr>"

section \<open>A concrete world\<close>

text \<open>
  The scenario of the specification: \<open>secret.zip\<close> holds a directory and a file protected
  with the password \<open>123456\<close>; \<open>words.txt\<close> lists \<open>admin\<close>, \<open>123456\<close> and \<open>password\<close>
  (with a Windows line ending, an empty line and a stray byte \<open>0xFF\<close>). \<open>latin.zip\<close> is
  protected with the single byte \<open>0xE9\<close>, \<open>dirs.zip\<close> holds directories only,
  \<open>broken.zip\<close> is no archive, and reading \<open>faulty.txt\<close> fails after its first line.
\<close>

definition protected_zip :: "pystr list \<Rightarrow> pystr \<Rightarrow> bytes \<Rightarrow> archive" where
  "protected_zip names member password =
     \<lparr>namelist = Inr names,
      open_member = (\<lambda>m pwd.
        if m = member \<and> pwd = password then Inr (MemberFile (Inr [0x68]))
        else Inl RuntimeError)\<rparr>"

definition secret_zip :: archive where
  "secret_zip =
     protected_zip [str ''docs/'', str ''notes.txt'', str ''more.txt''] (str ''notes.txt'')
       [0x31, 0x32, 0x33, 0x34, 0x35, 0x36]"

definition latin_zip :: archive where
  "latin_zip = protected_zip [str ''a.txt''] (str ''a.txt'') [0xE9]"

definition dirs_zip :: archive where
  "dirs_zip = protected_zip [str ''docs/'', str ''docs/old/''] (str ''docs/'') []"

definition words_txt :: bytes where
  "words_txt =
     [0x61, 0x64, 0x6D, 0x69, 0x6E, 0x0D, 0x0A,
      0x0A,
      0x31, 0x32, 0xFF, 0x33, 0x34, 0x35, 0x36, 0x0A,
      0x70, 0x61, 0x73, 0x73, 0x77, 0x6F, 0x72, 0x64, 0x0A]"

definition short_txt :: bytes where
  "short_txt =
     [0x61, 0x64, 0x6D, 0x69, 0x6E, 0x0A,
      0x70, 0x61, 0x73, 0x73, 0x77, 0x6F, 0x72, 0x64]"

definition latin_txt :: bytes where
  "latin_txt = [0x61, 0x0A, 0xC3, 0xA9, 0x0A]"

definition world :: env where
  "world =
     \<lparr>ZipFile = (\<lambda>p.
        if p = ''secret.zip'' then Inr secret_zip
        else if p = ''latin.zip'' then Inr latin_zip
        else if p = ''dirs.zip'' then Inr dirs_zip
        else if p = ''broken.zip'' then Inl BadZipFile
        else Inl FileNotFoundError),
      pyzipper = None,
      files = (\<lambda>p.
        if p = ''words.txt'' then Inr (RawFile words_txt None)
        else if p = ''short.txt'' then Inr (RawFile short_txt None)
        else if p = ''latin.txt'' then Inr (RawFile latin_txt None)
        else if p = ''faulty.txt'' then
          Inr (RawFile short_txt (Some (1, OtherException ''Input/output error'')))
        else Inl FileNotFoundError),
      clock = (\<lambda>n. 0)\<rparr>"

text \<open>
  The same world with pyzipper installed: the built-in reader cannot decrypt
  \<open>aes.zip\<close>, the reader of pyzipper can, with the password \<open>123456\<close>.
\<close>

definition aes_zip :: archive where
  "aes_zip =
     \<lparr>namelist = Inr [str ''notes.txt''],
      open_member = (\<lambda>m pwd. Inl (OtherException ''unsupported encryption''))\<rparr>"

definition world_aes :: env where
  "world_aes =
     \<lparr>ZipFile = (\<lambda>p. if p = ''aes.zip'' then Inr aes_zip else ZipFile world p),
      pyzipper = Some (\<lambda>p.
        if p = ''aes.zip'' then
          Inr (protected_zip [str ''notes.txt''] (str ''notes.txt'')
                 [0x31, 0x32, 0x33, 0x34, 0x35, 0x36])
        else Inl BadZipFile),
      files = files world,
      clock = (\<lambda>n. real n)\<rparr>"

section \<open>The probes never raise\<close>

lemma try_zipfile_open_eq:
  "try_zipfile_open zf m pwd = Inr (probe_member zf m pwd = Inr ())"
  by (cases "probe_member zf m pwd") (simp_all add: try_zipfile_open_def)

lemma try_pyzipper_eq:
  "try_pyzipper zp m pwd aes =
     Inr (case aes zp of Inl e \<Rightarrow> False | Inr z2 \<Rightarrow> probe_member z2 m pwd = Inr ())"
  by (cases "aes zp"; cases "probe_member (projr (aes zp)) m pwd")
     (simp_all add: try_pyzipper_def)

lemma probe_member_ok:
  "probe_member zf m pwd = Inr () \<longleftrightarrow>
     (\<exists>fh d. open_member zf m pwd = Inr fh \<and> read1 fh = Inr d)"
  by (auto simp: probe_member_def split: sum.splits)

text \<open>
  C7: \<open>try_zipfile_open\<close> and \<open>try_pyzipper\<close> return a boolean for every handle or path,
  member name and password: no exception leaves them. The result is \<open>True\<close> exactly when
  opening the member with the password and reading one byte both succeed (for
  \<open>try_pyzipper\<close>, after its own opening of the archive succeeded); a wrong password and
  every other error give \<open>False\<close>.
\<close>

theorem probes_total:
  "(\<exists>b. try_zipfile_open zf m pwd = Inr b) \<and>
   (\<exists>b. try_pyzipper zp m pwd aes = Inr b) \<and>
   (try_zipfile_open zf m pwd = Inr True \<longleftrightarrow>
      (\<exists>fh d. open_member zf m pwd = Inr fh \<and> read1 fh = Inr d)) \<and>
   (try_pyzipper zp m pwd aes = Inr True \<longleftrightarrow>
      (\<exists>z2 fh d. aes zp = Inr z2 \<and> open_member z2 m pwd = Inr fh \<and> read1 fh = Inr d))"
  by (auto simp: try_zipfile_open_eq try_pyzipper_eq probe_member_ok split: sum.splits)

section \<open>The wordlist reader\<close>

lemma gen_yields_wordlist_loop: "gen_yields (wordlist_loop ls flt) = candidates ls"
  by (induction ls flt rule: wordlist_loop.induct) (simp_all add: candidates_def Let_def)

lemma gen_end_wordlist_loop: "gen_end (wordlist_loop ls flt) = flt"
  by (induction ls flt rule: wordlist_loop.induct) (simp_all add: Let_def reraise_def)

lemma rstrip_last:
  assumes "rstrip cs s \<noteq> []"
  shows "last (rstrip cs s) \<notin> set cs"
proof -
  from assms have ne: "dropWhile (\<lambda>c. c \<in> set cs) (rev s) \<noteq> []"
    by (simp add: rstrip_def)
  then have "hd (dropWhile (\<lambda>c. c \<in> set cs) (rev s)) \<notin> set cs"
    by (rule hd_dropWhile)
  with ne show ?thesis by (simp add: rstrip_def last_rev)
qed

lemma rstrip_suffix: "\<exists>t. s = rstrip cs s @ t \<and> set t \<subseteq> set cs"
proof -
  have "rev s = takeWhile (\<lambda>c. c \<in> set cs) (rev s) @ dropWhile (\<lambda>c. c \<in> set cs) (rev s)"
    by simp
  then have "s = rev (dropWhile (\<lambda>c. c \<in> set cs) (rev s)) @
                 rev (takeWhile (\<lambda>c. c \<in> set cs) (rev s))"
    by (metis rev_append rev_rev_ident)
  moreover have "set (rev (takeWhile (\<lambda>c. c \<in> set cs) (rev s))) \<subseteq> set cs"
    by (auto dest: set_takeWhileD)
  ultimately show ?thesis unfolding rstrip_def by blast
qed

lemma candidates_stripped:
  "c \<in> set (candidates ls) \<Longrightarrow> c \<noteq> [] \<and> last c \<noteq> 10 \<and> last c \<noteq> 13"
  using rstrip_last [of "[10, 13]"] by (auto simp: candidates_def)

text \<open>
  C6: for an existing, readable wordlist file with any bytes \<open>bs\<close>, decoding with
  \<open>errors='ignore'\<close> gives a text \<open>s\<close> (it does not raise; malformed bytes are dropped),
  and \<open>iter_wordlist\<close> yields, in file order, the lines of \<open>s\<close> with their trailing
  \<open>\n\<close> and \<open>\r\<close> stripped, leaving out those that are empty after stripping; it then ends
  normally. Every yielded string is non-empty and ends with neither character. For a path
  that does not exist the generator yields nothing and raises \<open>FileNotFoundError\<close>.
\<close>

theorem iter_wordlist_yields:
  "(files env path = Inr (RawFile bs None) \<longrightarrow>
      (\<exists>s. utf8_decode Ignore bs = Inr s \<and>
           gen_yields (iter_wordlist env path) =
             filter (\<lambda>c. c \<noteq> []) (map (rstrip [10, 13]) (split_lines (universal_newlines s)))) \<and>
      gen_end (iter_wordlist env path) = None \<and>
      (\<forall>c \<in> set (gen_yields (iter_wordlist env path)).
          c \<noteq> [] \<and> last c \<noteq> 10 \<and> last c \<noteq> 13)) \<and>
   (files env path = Inl FileNotFoundError \<longrightarrow>
      gen_yields (iter_wordlist env path) = [] \<and>
      gen_end (iter_wordlist env path) = Some FileNotFoundError)"
proof (intro conjI impI)
  assume f: "files env path = Inr (RawFile bs None)"
  then have it: "iter_wordlist env path =
      Effect (OpenWordlist path)
        (wordlist_loop (split_lines (universal_newlines [c. Some c \<leftarrow> utf8_scan bs])) None)"
    by (simp add: iter_wordlist_def open_text_def text_lines_def)
  show "\<exists>s. utf8_decode Ignore bs = Inr s \<and>
           gen_yields (iter_wordlist env path) =
             filter (\<lambda>c. c \<noteq> []) (map (rstrip [10, 13]) (split_lines (universal_newlines s)))"
    using it by (simp add: gen_yields_wordlist_loop candidates_def)
  show "gen_end (iter_wordlist env path) = None"
    using it by (simp add: gen_end_wordlist_loop)
  show "\<forall>c \<in> set (gen_yields (iter_wordlist env path)).
          c \<noteq> [] \<and> last c \<noteq> 10 \<and> last c \<noteq> 13"
    using it candidates_stripped by (simp add: gen_yields_wordlist_loop)
next
  assume f: "files env path = Inl FileNotFoundError"
  then have it: "iter_wordlist env path =
      Effect (OpenWordlist path) (Raise FileNotFoundError)"
    by (simp add: iter_wordlist_def open_text_def reraise_def)
  show "gen_yields (iter_wordlist env path) = []" using it by simp
  show "gen_end (iter_wordlist env path) = Some FileNotFoundError" using it by simp
qed

lemma words_txt_candidates:
  "filter (\<lambda>c. c \<noteq> [])
     (map (rstrip [10, 13])
        (split_lines (universal_newlines [c. Some c \<leftarrow> utf8_scan words_txt]))) =
   [str ''admin'', str ''123456'', str ''password'']"
  by code_simp

theorem iter_wordlist_yields_witness:
  "gen_yields (iter_wordlist world ''words.txt'') =
     [str ''admin'', str ''123456'', str ''password''] \<and>
   gen_end (iter_wordlist world ''words.txt'') = None \<and>
   gen_yields (iter_wordlist world ''missing.txt'') = [] \<and>
   gen_end (iter_wordlist world ''missing.txt'') = Some FileNotFoundError"
proof -
  have f: "files world ''words.txt'' = Inr (RawFile words_txt None)"
    by (simp add: world_def)
  have m: "files world ''missing.txt'' = Inl FileNotFoundError"
    by (simp add: world_def)
  from iter_wordlist_yields [of world "''words.txt''" words_txt] f
  have "gen_yields (iter_wordlist world ''words.txt'') =
          [str ''admin'', str ''123456'', str ''password''] \<and>
        gen_end (iter_wordlist world ''words.txt'') = None"
    by (simp add: words_txt_candidates)
  moreover
  from iter_wordlist_yields [of world "''missing.txt''"] m
  have "gen_yields (iter_wordlist world ''missing.txt'') = [] \<and>
        gen_end (iter_wordlist world ''missing.txt'') = Some FileNotFoundError"
    by simp
  ultimately show ?thesis by simp
qed

section \<open>One candidate, then the whole wordlist\<close>

lemma take_until_none: "\<not> list_ex P xs \<Longrightarrow> take_until P xs = xs"
  by (induction xs) auto

lemma try_encodings_eq:
  "try_encodings L c encs =
     (if list_ex (attempt_ok L) (attempts L c encs) then Return 0 else Continue,
      map (probe_event L) (take_until (attempt_ok L) (attempts L c encs)) @
      (if list_ex (attempt_ok L) (attempts L c encs) then [Stdout c] else []))"
proof (induction encs)
  case Nil
  show ?case by (simp add: attempts_def)
next
  case (Cons enc encs)
  show ?case
  proof (cases "encode enc c")
    case (Inl e)
    then show ?thesis using Cons by (simp add: attempts_def attempts_enc_def)
  next
    case (Inr pwd)
    show ?thesis
    proof (cases "pyzipper_module L")
      case None
      then show ?thesis using Cons Inr
        by (simp add: attempts_def attempts_enc_def try_zipfile_open_eq primary_ok_def
            pre_def probe_event_def)
    next
      case (Some aes)
      then show ?thesis using Cons Inr
        by (simp add: attempts_def attempts_enc_def try_zipfile_open_eq try_pyzipper_eq
            primary_ok_def secondary_ok_def pre_def probe_event_def)
    qed
  qed
qed

lemma stdout_of_append: "stdout_of (a @ b) = stdout_of a @ stdout_of b"
  by (induction a rule: stdout_of.induct) simp_all

lemma stderr_of_append: "stderr_of (a @ b) = stderr_of a @ stderr_of b"
  by (induction a rule: stderr_of.induct) simp_all

lemma lines_read_append: "lines_read (a @ b) = lines_read a @ lines_read b"
  by (induction a rule: lines_read.induct) simp_all

lemma probes_of_append: "probes_of (a @ b) = probes_of a @ probes_of b"
  by (induction a rule: probes_of.induct) simp_all

lemma errors_of_append: "errors_of (a @ b) = errors_of a @ errors_of b"
  by (simp add: errors_of_def stderr_of_append)

lemma errors_of_simps:
  "errors_of [] = []"
  "errors_of (ReadLine l # t) = errors_of t"
  "errors_of (Stdout s # t) = errors_of t"
  "errors_of (OpenWordlist p # t) = errors_of t"
  "errors_of (CloseWordlist # t) = errors_of t"
  "errors_of (OpenZip p # t) = errors_of t"
  "errors_of (ListZip # t) = errors_of t"
  "errors_of (ImportPyzipper # t) = errors_of t"
  "errors_of (Probe cp m pw # t) = errors_of t"
  "errors_of (Stderr msg # t) = (if is_error msg then msg # errors_of t else errors_of t)"
  by (simp_all add: errors_of_def)

lemma probe_events_proj:
  "stdout_of (map (probe_event L) xs) = []"
  "stderr_of (map (probe_event L) xs) = []"
  "lines_read (map (probe_event L) xs) = []"
  "probes_of (map (probe_event L) xs) = map (\<lambda>a. (fst a, target_member L, snd a)) xs"
  "errors_of (map (probe_event L) xs) = []"
  by (induction xs) (simp_all add: probe_event_def errors_of_def)

lemma progress_proj:
  "stdout_of (progress env L n) = []"
  "lines_read (progress env L n) = []"
  "probes_of (progress env L n) = []"
  "errors_of (progress env L n) = []"
  by (simp_all add: progress_def errors_of_def)

lemma for_candidates_match:
  assumes "c \<noteq> []" "verifies L c"
  shows "for_candidates env L n (Yield c g) =
    (Return 0,
     map (probe_event L) (take_until (attempt_ok L) (attempts L c [UTF8, Latin1])) @ [Stdout c])"
  using assms by (simp add: try_encodings_eq verifies_def)

lemma for_candidates_nomatch:
  assumes "c \<noteq> []" "\<not> verifies L c"
  shows "for_candidates env L n (Yield c g) =
    pre (map (probe_event L) (attempts L c [UTF8, Latin1]) @ progress env L (n + 1))
      (for_candidates env L (n + 1) g)"
  using assms by (simp add: try_encodings_eq verifies_def take_until_none)

lemma scan_line_empty:
  assumes "rstrip [10, 13] l = []"
  shows "for_candidates env L n (wordlist_loop (l # rest) flt) =
    pre [ReadLine l] (for_candidates env L n (wordlist_loop rest flt))"
  using assms by simp

lemma scan_line_match:
  assumes "rstrip [10, 13] l \<noteq> []" "verifies L (rstrip [10, 13] l)"
  shows "for_candidates env L n (wordlist_loop (l # rest) flt) =
    (Return 0,
     ReadLine l #
     map (probe_event L)
       (take_until (attempt_ok L) (attempts L (rstrip [10, 13] l) [UTF8, Latin1])) @
     [Stdout (rstrip [10, 13] l)])"
  using assms for_candidates_match [OF assms]
  by (simp add: pre_def del: for_candidates.simps(4))

lemma scan_line_nomatch:
  assumes "rstrip [10, 13] l \<noteq> []" "\<not> verifies L (rstrip [10, 13] l)"
  shows "for_candidates env L n (wordlist_loop (l # rest) flt) =
    pre (ReadLine l #
         map (probe_event L) (attempts L (rstrip [10, 13] l) [UTF8, Latin1]) @
         progress env L (n + 1))
      (for_candidates env L (n + 1) (wordlist_loop rest flt))"
  using assms for_candidates_nomatch [OF assms]
  by (simp add: pre_def del: for_candidates.simps(4))

lemma scan_no_match:
  assumes "\<forall>c \<in> set (candidates ls). \<not> verifies L c"
  shows "fst (for_candidates env L n (wordlist_loop ls flt)) =
           (case flt of None \<Rightarrow> Continue | Some e \<Rightarrow> Raised e) \<and>
         stdout_of (snd (for_candidates env L n (wordlist_loop ls flt))) = [] \<and>
         lines_read (snd (for_candidates env L n (wordlist_loop ls flt))) = ls \<and>
         errors_of (snd (for_candidates env L n (wordlist_loop ls flt))) = []"
  using assms
proof (induction ls arbitrary: n)
  case Nil
  show ?case by (cases flt) (simp_all add: pre_def errors_of_simps reraise_def)
next
  case (Cons l rest)
  show ?case
  proof (cases "rstrip [10, 13] l = []")
    case True
    with Cons.prems have "\<forall>c \<in> set (candidates rest). \<not> verifies L c"
      by (simp add: candidates_def)
    from Cons.IH [OF this, of n] show ?thesis
      unfolding scan_line_empty [OF True]
      by (simp add: pre_def errors_of_simps)
  next
    case False
    with Cons.prems have nv: "\<not> verifies L (rstrip [10, 13] l)"
      and rest: "\<forall>c \<in> set (candidates rest). \<not> verifies L c"
      by (simp_all add: candidates_def)
    from Cons.IH [OF rest, of "n + 1"] show ?thesis
      unfolding scan_line_nomatch [OF False nv]
      by (simp add: pre_def stdout_of_append lines_read_append errors_of_append
          probe_events_proj progress_proj errors_of_simps)
  qed
qed

end
